theory Spec2Isabelle
  imports Complex_Main
begin

section \<open>JavaScript numbers over the reals\<close>

text \<open>
  The easing library computes on JavaScript numbers. A number is modelled as a real, or as one
  of the three non-finite values an arithmetic operation can produce. The operations follow
  the ECMAScript definitions of the operators and of the \<open>Math\<close> functions case by case; a
  finite result is the exact real (no rounding, no overflow), and there is a single zero, which
  behaves as \<open>+0\<close>. No operation raises: a division by zero, a square root of a negative number
  or a logarithm of a non-positive number returns \<open>PInf\<close>, \<open>NInf\<close> or \<open>NaN\<close>. The operators
  of the code round their result to a double; they are defined further down, on top of the
  exact ones, for the claims whose truth depends on the rounding.
\<close>

datatype jsnum = Fin real | PInf | NInf | NaN

fun is_finite :: "jsnum \<Rightarrow> bool" where
  "is_finite (Fin x) = True"
| "is_finite PInf = False"
| "is_finite NInf = False"
| "is_finite NaN = False"

text \<open>Unary minus.\<close>

fun js_neg :: "jsnum \<Rightarrow> jsnum" where
  "js_neg (Fin x) = Fin (- x)"
| "js_neg PInf = NInf"
| "js_neg NInf = PInf"
| "js_neg NaN = NaN"

text \<open>\<open>a + b\<close>: infinities of opposite sign add up to \<open>NaN\<close>.\<close>

fun js_add :: "jsnum \<Rightarrow> jsnum \<Rightarrow> jsnum" where
  "js_add (Fin x) (Fin y) = Fin (x + y)"
| "js_add NaN b = NaN"
| "js_add a NaN = NaN"
| "js_add PInf NInf = NaN"
| "js_add NInf PInf = NaN"
| "js_add PInf b = PInf"
| "js_add a PInf = PInf"
| "js_add NInf b = NInf"
| "js_add a NInf = NInf"

text \<open>\<open>a - b\<close> is \<open>a + (-b)\<close>.\<close>

definition js_sub :: "jsnum \<Rightarrow> jsnum \<Rightarrow> jsnum" where
  "js_sub a b = js_add a (js_neg b)"

text \<open>\<open>a * b\<close>: zero times an infinity is \<open>NaN\<close>.\<close>

fun js_mul :: "jsnum \<Rightarrow> jsnum \<Rightarrow> jsnum" where
  "js_mul (Fin x) (Fin y) = Fin (x * y)"
| "js_mul NaN b = NaN"
| "js_mul a NaN = NaN"
| "js_mul (Fin x) PInf = (if x = 0 then NaN else if 0 < x then PInf else NInf)"
| "js_mul (Fin x) NInf = (if x = 0 then NaN else if 0 < x then NInf else PInf)"
| "js_mul PInf (Fin y) = (if y = 0 then NaN else if 0 < y then PInf else NInf)"
| "js_mul NInf (Fin y) = (if y = 0 then NaN else if 0 < y then NInf else PInf)"
| "js_mul PInf PInf = PInf"
| "js_mul PInf NInf = NInf"
| "js_mul NInf PInf = NInf"
| "js_mul NInf NInf = PInf"

text \<open>
  \<open>a / b\<close>: a non-zero number over zero is an infinity with the sign of the numerator, zero
  over zero and infinity over infinity are \<open>NaN\<close>, a finite number over an infinity is zero.
\<close>

fun js_div :: "jsnum \<Rightarrow> jsnum \<Rightarrow> jsnum" where
  "js_div (Fin x) (Fin y) =
     (if y = 0 then (if x = 0 then NaN else if 0 < x then PInf else NInf) else Fin (x / y))"
| "js_div NaN b = NaN"
| "js_div a NaN = NaN"
| "js_div (Fin x) PInf = Fin 0"
| "js_div (Fin x) NInf = Fin 0"
| "js_div PInf (Fin y) = (if 0 \<le> y then PInf else NInf)"
| "js_div NInf (Fin y) = (if 0 \<le> y then NInf else PInf)"
| "js_div PInf b = NaN"
| "js_div NInf b = NaN"

text \<open>\<open>a < b\<close> and \<open>a <= b\<close>: every comparison with \<open>NaN\<close> is false.\<close>

fun js_lt :: "jsnum \<Rightarrow> jsnum \<Rightarrow> bool" where
  "js_lt (Fin x) (Fin y) = (x < y)"
| "js_lt NaN b = False"
| "js_lt a NaN = False"
| "js_lt a NInf = False"
| "js_lt PInf b = False"
| "js_lt NInf b = True"
| "js_lt a PInf = True"

fun js_le :: "jsnum \<Rightarrow> jsnum \<Rightarrow> bool" where
  "js_le (Fin x) (Fin y) = (x \<le> y)"
| "js_le NaN b = False"
| "js_le a NaN = False"
| "js_le NInf b = True"
| "js_le a PInf = True"
| "js_le a NInf = False"
| "js_le PInf b = False"

text \<open>\<open>Math.PI\<close>.\<close>

definition Math_PI :: jsnum where
  "Math_PI = Fin pi"

text \<open>\<open>Math.cos\<close>, \<open>Math.sin\<close>: \<open>NaN\<close> at the infinities.\<close>

fun Math_cos :: "jsnum \<Rightarrow> jsnum" where
  "Math_cos (Fin x) = Fin (cos x)"
| "Math_cos a = NaN"

fun Math_sin :: "jsnum \<Rightarrow> jsnum" where
  "Math_sin (Fin x) = Fin (sin x)"
| "Math_sin a = NaN"

text \<open>\<open>Math.sqrt\<close>: \<open>NaN\<close> below zero.\<close>

fun Math_sqrt :: "jsnum \<Rightarrow> jsnum" where
  "Math_sqrt (Fin x) = (if x < 0 then NaN else Fin (sqrt x))"
| "Math_sqrt PInf = PInf"
| "Math_sqrt a = NaN"

text \<open>\<open>Math.exp\<close>.\<close>

fun Math_exp :: "jsnum \<Rightarrow> jsnum" where
  "Math_exp (Fin x) = Fin (exp x)"
| "Math_exp PInf = PInf"
| "Math_exp NInf = Fin 0"
| "Math_exp NaN = NaN"

text \<open>\<open>Math.log\<close>: \<open>NaN\<close> below zero, \<open>-Infinity\<close> at zero.\<close>

fun Math_log :: "jsnum \<Rightarrow> jsnum" where
  "Math_log (Fin x) = (if x < 0 then NaN else if x = 0 then NInf else Fin (ln x))"
| "Math_log PInf = PInf"
| "Math_log a = NaN"

text \<open>\<open>Math.floor\<close>, and \<open>Math.round\<close>, which rounds a tie towards \<open>+Infinity\<close>.\<close>

fun Math_floor :: "jsnum \<Rightarrow> jsnum" where
  "Math_floor (Fin x) = Fin (of_int \<lfloor>x\<rfloor>)"
| "Math_floor a = a"

fun Math_round :: "jsnum \<Rightarrow> jsnum" where
  "Math_round (Fin x) = Fin (of_int \<lfloor>x + 1 / 2\<rfloor>)"
| "Math_round a = a"

text \<open>
  \<open>Math.pow(base, exponent)\<close>, in the order of the ECMAScript definition: a \<open>NaN\<close> exponent
  gives \<open>NaN\<close>, a zero exponent gives 1 for every base, then come a \<open>NaN\<close> base, the infinite
  bases, the zero base and the infinite exponents; a negative base has a power only for an
  integral exponent.
\<close>

definition is_integral :: "real \<Rightarrow> bool" where
  "is_integral e = (of_int \<lfloor>e\<rfloor> = e)"

fun Math_pow :: "jsnum \<Rightarrow> jsnum \<Rightarrow> jsnum" where
  "Math_pow b NaN = NaN"
| "Math_pow NaN (Fin e) = (if e = 0 then Fin 1 else NaN)"
| "Math_pow NaN e = NaN"
| "Math_pow PInf (Fin e) = (if e = 0 then Fin 1 else if 0 < e then PInf else Fin 0)"
| "Math_pow PInf PInf = PInf"
| "Math_pow PInf NInf = Fin 0"
| "Math_pow NInf (Fin e) =
     (if e = 0 then Fin 1
      else if 0 < e then (if is_integral e \<and> odd \<lfloor>e\<rfloor> then NInf else PInf)
      else Fin 0)"
| "Math_pow NInf PInf = PInf"
| "Math_pow NInf NInf = Fin 0"
| "Math_pow (Fin x) PInf = (if 1 < \<bar>x\<bar> then PInf else if \<bar>x\<bar> = 1 then NaN else Fin 0)"
| "Math_pow (Fin x) NInf = (if 1 < \<bar>x\<bar> then Fin 0 else if \<bar>x\<bar> = 1 then NaN else PInf)"
| "Math_pow (Fin x) (Fin e) =
     (if e = 0 then Fin 1
      else if x = 0 then (if 0 < e then Fin 0 else PInf)
      else if 0 < x then Fin (x powr e)
      else if is_integral e then Fin (x powi \<lfloor>e\<rfloor>)
      else NaN)"

section \<open>The combinators of \<open>EasingHelpers\<close> (\<open>src/animation/easing.jsx\<close>)\<close>

text \<open>An easing function maps a number to a number.\<close>

type_synonym easing = "jsnum \<Rightarrow> jsnum"

text \<open>\<open>ease(f, start, end)\<close> returns \<open>t => start + f(t) * (end - start)\<close>.\<close>

definition ease :: "easing \<Rightarrow> jsnum \<Rightarrow> jsnum \<Rightarrow> easing" where
  "ease f start end_v = (\<lambda>t. js_add start (js_mul (f t) (js_sub end_v start)))"

text \<open>\<open>toEaseOut(f)\<close> returns \<open>t => 1 - f(1 - t)\<close>.\<close>

definition toEaseOut :: "easing \<Rightarrow> easing" where
  "toEaseOut f = (\<lambda>t. js_sub (Fin 1) (f (js_sub (Fin 1) t)))"

text \<open>\<open>toEaseInOut(f)\<close> returns \<open>t => 0.5 * (t < 0.5 ? f(2 * t) : (2 - f(2 - 2 * t)))\<close>.\<close>

definition toEaseInOut :: "easing \<Rightarrow> easing" where
  "toEaseInOut f =
     (\<lambda>t. js_mul (Fin 0.5)
        (if js_lt t (Fin 0.5) then f (js_mul (Fin 2) t)
         else js_sub (Fin 2) (f (js_sub (Fin 2) (js_mul (Fin 2) t)))))"

text \<open>
  \<open>squeeze(f, x1, x2)\<close> returns \<open>t => (f(x1 + t*(x2-x1)) - f(x1)) / (f(x2) - f(x1))\<close>.
\<close>

definition squeeze :: "easing \<Rightarrow> jsnum \<Rightarrow> jsnum \<Rightarrow> easing" where
  "squeeze f x1 x2 =
     (\<lambda>t. js_div (js_sub (f (js_add x1 (js_mul t (js_sub x2 x1)))) (f x1))
                (js_sub (f x2) (f x1)))"

section \<open>The functions of \<open>Easing\<close> (\<open>src/animation/easing.jsx\<close>)\<close>

definition linear_easing :: easing where
  "linear_easing t = t"

definition quadIn :: easing where
  "quadIn t = js_mul t t"

definition quadOut :: easing where
  "quadOut t = toEaseOut quadIn t"

definition quadInOut :: easing where
  "quadInOut t = toEaseInOut quadIn t"

definition cubicIn :: easing where
  "cubicIn t = Math_pow t (Fin 3)"

definition cubicOut :: easing where
  "cubicOut t = toEaseOut cubicIn t"

definition cubicInOut :: easing where
  "cubicInOut t = toEaseInOut cubicIn t"

definition makePolyIn :: "jsnum \<Rightarrow> easing" where
  "makePolyIn exponent = (\<lambda>t. Math_pow t exponent)"

text \<open>\<open>1 - Math.cos(t * Math.PI/2)\<close>: the product is divided by 2.\<close>

definition sinIn :: easing where
  "sinIn t = js_sub (Fin 1) (Math_cos (js_div (js_mul t Math_PI) (Fin 2)))"

definition sinOut :: easing where
  "sinOut t = toEaseOut sinIn t"

definition sinInOut :: easing where
  "sinInOut t = toEaseInOut sinIn t"

definition expIn :: easing where
  "expIn t = Math_pow (Fin 2) (js_mul (Fin 10) (js_sub t (Fin 1)))"

definition expOut :: easing where
  "expOut t = toEaseOut expIn t"

definition expInOut :: easing where
  "expInOut t = toEaseInOut expIn t"

definition circleIn :: easing where
  "circleIn t = js_sub (Fin 1) (Math_sqrt (js_sub (Fin 1) (js_mul t t)))"

definition circleOut :: easing where
  "circleOut t = toEaseOut circleIn t"

definition circleInOut :: easing where
  "circleInOut t = toEaseInOut circleIn t"

text \<open>\<open>makeBackIn(amplitude)\<close> returns \<open>x => x*x*((1+amplitude)*x-amplitude)\<close>.\<close>

definition makeBackIn :: "jsnum \<Rightarrow> easing" where
  "makeBackIn amplitude =
     (\<lambda>x. js_mul (js_mul x x) (js_sub (js_mul (js_add (Fin 1) amplitude) x) amplitude))"

definition backIn :: easing where
  "backIn t = makeBackIn (Fin 1.70158) t"

definition backOut :: easing where
  "backOut t = toEaseOut backIn t"

definition backInOut :: easing where
  "backInOut t = toEaseInOut backIn t"

text \<open>
  \<open>makeElasticIn(springiness, numberOfSwings)\<close>: \<open>s\<close> is the springiness, \<open>n\<close> the rounded
  number of swings, and the result is
  \<open>x => (Math.exp(s*x)-1.0)/(Math.exp(s)-1.0)*(Math.sin((Math.PI * 2.0 * n + Math.PI * 0.5) * x))\<close>.
\<close>

definition makeElasticIn :: "jsnum \<Rightarrow> jsnum \<Rightarrow> easing" where
  "makeElasticIn springiness numberOfSwings =
     (let s = springiness;
          n = Math_round numberOfSwings
      in (\<lambda>x. js_mul
            (js_div (js_sub (Math_exp (js_mul s x)) (Fin 1.0)) (js_sub (Math_exp s) (Fin 1.0)))
            (Math_sin (js_mul (js_add (js_mul (js_mul Math_PI (Fin 2.0)) n)
                                      (js_mul Math_PI (Fin 0.5))) x))))"

text \<open>\<open>Math.sin(13.0 * t * Math.PI/2) * Math.pow(2.0, 10.0 * (t - 1.0))\<close>.\<close>

definition elasticIn :: easing where
  "elasticIn t =
     js_mul (Math_sin (js_div (js_mul (js_mul (Fin 13.0) t) Math_PI) (Fin 2)))
            (Math_pow (Fin 2.0) (js_mul (Fin 10.0) (js_sub t (Fin 1.0))))"

definition elasticOut :: easing where
  "elasticOut t = toEaseOut elasticIn t"

definition elasticInOut :: easing where
  "elasticInOut t = toEaseInOut elasticIn t"

text \<open>
  \<open>bounceOut(t)\<close> is a chain of conditional expressions. In the second to fourth branch the
  assignment \<open>t -= c\<close> is the left factor: it stores \<open>t - c\<close> in \<open>t\<close> and has that value, and
  the right factor \<open>t\<close>, evaluated after it, reads the updated variable (\<open>t1\<close> below).
\<close>

definition bounceOut :: easing where
  "bounceOut t =
     (if js_lt t (js_div (Fin 1) (Fin 2.75)) then js_mul (js_mul (Fin 7.5625) t) t
      else if js_lt t (js_div (Fin 2) (Fin 2.75)) then
        (let t1 = js_sub t (js_div (Fin 1.5) (Fin 2.75))
         in js_add (js_mul (js_mul (Fin 7.5625) t1) t1) (Fin 0.75))
      else if js_lt t (js_div (Fin 2.5) (Fin 2.75)) then
        (let t1 = js_sub t (js_div (Fin 2.25) (Fin 2.75))
         in js_add (js_mul (js_mul (Fin 7.5625) t1) t1) (Fin 0.9375))
      else
        (let t1 = js_sub t (js_div (Fin 2.625) (Fin 2.75))
         in js_add (js_mul (js_mul (Fin 7.5625) t1) t1) (Fin 0.984375)))"

definition bounceIn :: easing where
  "bounceIn t = toEaseOut bounceOut t"

definition bounceInOut :: easing where
  "bounceInOut t = toEaseInOut bounceIn t"

text \<open>
  \<open>makeBounceIn(bounces, bounciness)\<close>. The locals that the segment lookup is made of are
  definitions of their own, as functions of the arguments: the parameter \<open>bounciness\<close> after the
  clamp, \<open>sumOfUnits\<close>, the argument of the logarithm and \<open>bounceAtT\<close>.
\<close>

definition makeBounceIn_bounciness :: "jsnum \<Rightarrow> jsnum" where
  "makeBounceIn_bounciness bounciness =
     (if js_le bounciness (Fin 1) then Fin 1.001 else bounciness)"

definition makeBounceIn_sumOfUnits :: "jsnum \<Rightarrow> jsnum \<Rightarrow> jsnum" where
  "makeBounceIn_sumOfUnits bounces bounciness =
     (let b = makeBounceIn_bounciness bounciness;
          pow = Math_pow b bounces;
          oneMinusBounciness = js_sub (Fin 1.0) b
      in js_add (js_div (js_sub (Fin 1.0) pow) oneMinusBounciness) (js_mul pow (Fin 0.5)))"

definition makeBounceIn_logArgument :: "jsnum \<Rightarrow> jsnum \<Rightarrow> jsnum \<Rightarrow> jsnum" where
  "makeBounceIn_logArgument bounces bounciness t =
     (let b = makeBounceIn_bounciness bounciness;
          unitAtT = js_mul t (makeBounceIn_sumOfUnits bounces bounciness)
      in js_add (js_mul (js_neg unitAtT) (js_sub (Fin 1.0) b)) (Fin 1.0))"

definition makeBounceIn_bounceAtT :: "jsnum \<Rightarrow> jsnum \<Rightarrow> jsnum \<Rightarrow> jsnum" where
  "makeBounceIn_bounceAtT bounces bounciness t =
     js_div (Math_log (makeBounceIn_logArgument bounces bounciness t))
            (Math_log (makeBounceIn_bounciness bounciness))"

definition makeBounceIn :: "jsnum \<Rightarrow> jsnum \<Rightarrow> easing" where
  "makeBounceIn bounces bounciness =
     (let b = makeBounceIn_bounciness bounciness;
          oneMinusBounciness = js_sub (Fin 1.0) b;
          sumOfUnits = makeBounceIn_sumOfUnits bounces bounciness
      in (\<lambda>t.
        let bounceAtT = makeBounceIn_bounceAtT bounces bounciness t;
            start = Math_floor bounceAtT;
            end_v = js_add start (Fin 1.0);
            startTime = js_div (js_sub (Fin 1.0) (Math_pow b start))
                               (js_mul oneMinusBounciness sumOfUnits);
            endTime = js_div (js_sub (Fin 1.0) (Math_pow b end_v))
                             (js_mul oneMinusBounciness sumOfUnits);
            midTime = js_mul (js_add startTime endTime) (Fin 0.5);
            timeRelativeToPeak = js_sub t midTime;
            radius = js_sub midTime startTime;
            amplitude = Math_pow (js_div (Fin 1.0) b) (js_sub bounces start)
        in js_mul (js_mul (js_div (js_neg amplitude) (js_mul radius radius))
                          (js_sub timeRelativeToPeak radius))
                  (js_add timeRelativeToPeak radius)))"

section \<open>The variant with function expressions (\<open>src/unnamed/part_000\<close>)\<close>

text \<open>
  The second file defines the combinators in \<open>helpers\<close>, the named functions in \<open>Easing\<close> and
  the factories in \<open>make\<close>. Its \<open>Easing\<close> functions carry the suffix \<open>_es5\<close> here. Its \<open>squeeze\<close>
  evaluates \<open>f(x1)\<close> once, into \<open>y1\<close>, when the combinator is applied. This file has no
  \<open>makeBounceIn\<close>; its helper \<open>advance\<close>, which steps an animation object and is no easing
  function, is not part of this development.
\<close>

definition helpers_ease :: "easing \<Rightarrow> jsnum \<Rightarrow> jsnum \<Rightarrow> easing" where
  "helpers_ease f start end_v = (\<lambda>t. js_add start (js_mul (f t) (js_sub end_v start)))"

definition helpers_toEaseOut :: "easing \<Rightarrow> easing" where
  "helpers_toEaseOut f = (\<lambda>t. js_sub (Fin 1) (f (js_sub (Fin 1) t)))"

definition helpers_toEaseInOut :: "easing \<Rightarrow> easing" where
  "helpers_toEaseInOut f =
     (\<lambda>t. js_mul (Fin 0.5)
        (if js_lt t (Fin 0.5) then f (js_mul (Fin 2) t)
         else js_sub (Fin 2) (f (js_sub (Fin 2) (js_mul (Fin 2) t)))))"

definition helpers_squeeze :: "easing \<Rightarrow> jsnum \<Rightarrow> jsnum \<Rightarrow> easing" where
  "helpers_squeeze f x1 x2 =
     (let y1 = f x1
      in (\<lambda>t. js_div (js_sub (f (js_add x1 (js_mul t (js_sub x2 x1)))) y1)
                    (js_sub (f x2) y1)))"

definition make_polyIn :: "jsnum \<Rightarrow> easing" where
  "make_polyIn exponent = (\<lambda>t. Math_pow t exponent)"

definition make_backIn :: "jsnum \<Rightarrow> easing" where
  "make_backIn amplitude =
     (\<lambda>x. js_mul (js_mul x x) (js_sub (js_mul (js_add (Fin 1) amplitude) x) amplitude))"

definition make_elasticIn :: "jsnum \<Rightarrow> jsnum \<Rightarrow> easing" where
  "make_elasticIn springiness numberOfSwings =
     (let s = springiness;
          n = Math_round numberOfSwings
      in (\<lambda>x. js_mul
            (js_div (js_sub (Math_exp (js_mul s x)) (Fin 1.0)) (js_sub (Math_exp s) (Fin 1.0)))
            (Math_sin (js_mul (js_add (js_mul (js_mul Math_PI (Fin 2.0)) n)
                                      (js_mul Math_PI (Fin 0.5))) x))))"

definition linear_es5 :: easing where
  "linear_es5 t = t"

definition quadIn_es5 :: easing where
  "quadIn_es5 t = js_mul t t"

definition quadOut_es5 :: easing where
  "quadOut_es5 t = helpers_toEaseOut quadIn_es5 t"

definition quadInOut_es5 :: easing where
  "quadInOut_es5 t = helpers_toEaseInOut quadIn_es5 t"

definition cubicIn_es5 :: easing where
  "cubicIn_es5 t = Math_pow t (Fin 3)"

definition cubicOut_es5 :: easing where
  "cubicOut_es5 t = helpers_toEaseOut cubicIn_es5 t"

definition cubicInOut_es5 :: easing where
  "cubicInOut_es5 t = helpers_toEaseInOut cubicIn_es5 t"

definition sinIn_es5 :: easing where
  "sinIn_es5 t = js_sub (Fin 1) (Math_cos (js_div (js_mul t Math_PI) (Fin 2)))"

definition sinOut_es5 :: easing where
  "sinOut_es5 t = helpers_toEaseOut sinIn_es5 t"

definition sinInOut_es5 :: easing where
  "sinInOut_es5 t = helpers_toEaseInOut sinIn_es5 t"

definition expIn_es5 :: easing where
  "expIn_es5 t = Math_pow (Fin 2) (js_mul (Fin 10) (js_sub t (Fin 1)))"

definition expOut_es5 :: easing where
  "expOut_es5 t = helpers_toEaseOut expIn_es5 t"

definition expInOut_es5 :: easing where
  "expInOut_es5 t = helpers_toEaseInOut expIn_es5 t"

definition circleIn_es5 :: easing where
  "circleIn_es5 t = js_sub (Fin 1) (Math_sqrt (js_sub (Fin 1) (js_mul t t)))"

definition circleOut_es5 :: easing where
  "circleOut_es5 t = helpers_toEaseOut circleIn_es5 t"

definition circleInOut_es5 :: easing where
  "circleInOut_es5 t = helpers_toEaseInOut circleIn_es5 t"

definition backIn_es5 :: easing where
  "backIn_es5 t = make_backIn (Fin 1.70158) t"

definition backOut_es5 :: easing where
  "backOut_es5 t = helpers_toEaseOut backIn_es5 t"

definition backInOut_es5 :: easing where
  "backInOut_es5 t = helpers_toEaseInOut backIn_es5 t"

definition elasticIn_es5 :: easing where
  "elasticIn_es5 t =
     js_mul (Math_sin (js_div (js_mul (js_mul (Fin 13.0) t) Math_PI) (Fin 2)))
            (Math_pow (Fin 2.0) (js_mul (Fin 10.0) (js_sub t (Fin 1.0))))"

definition elasticOut_es5 :: easing where
  "elasticOut_es5 t = helpers_toEaseOut elasticIn_es5 t"

definition elasticInOut_es5 :: easing where
  "elasticInOut_es5 t = helpers_toEaseInOut elasticIn_es5 t"

definition bounceOut_es5 :: easing where
  "bounceOut_es5 t =
     (if js_lt t (js_div (Fin 1) (Fin 2.75)) then js_mul (js_mul (Fin 7.5625) t) t
      else if js_lt t (js_div (Fin 2) (Fin 2.75)) then
        (let t1 = js_sub t (js_div (Fin 1.5) (Fin 2.75))
         in js_add (js_mul (js_mul (Fin 7.5625) t1) t1) (Fin 0.75))
      else if js_lt t (js_div (Fin 2.5) (Fin 2.75)) then
        (let t1 = js_sub t (js_div (Fin 2.25) (Fin 2.75))
         in js_add (js_mul (js_mul (Fin 7.5625) t1) t1) (Fin 0.9375))
      else
        (let t1 = js_sub t (js_div (Fin 2.625) (Fin 2.75))
         in js_add (js_mul (js_mul (Fin 7.5625) t1) t1) (Fin 0.984375)))"

definition bounceIn_es5 :: easing where
  "bounceIn_es5 t = helpers_toEaseOut bounceOut_es5 t"

definition bounceInOut_es5 :: easing where
  "bounceInOut_es5 t = helpers_toEaseInOut bounceIn_es5 t"

section \<open>Double arithmetic\<close>

text \<open>
  The code computes on binary64 doubles: each of \<open>+\<close>, \<open>-\<close>, \<open>*\<close>, \<open>/\<close> returns the exact result
  rounded to the nearest double, a tie going to the even significand. \<open>to_double\<close> is that
  rounding: a real with \<open>2^e \<le> |x| < 2^(e+1)\<close> is rounded to a multiple of \<open>2^(e-52)\<close>, where \<open>e\<close>
  is taken no smaller than \<open>-1022\<close> (below that the doubles are the multiples of \<open>2^-1074\<close>),
  and a rounded magnitude of \<open>2^1024\<close> or more is an infinity. A real is a double when rounding
  leaves it unchanged.
\<close>

definition round_even :: "real \<Rightarrow> int" where
  "round_even x =
     (let n = \<lfloor>x\<rfloor>; d = x - of_int n
      in if d < 1 / 2 then n else if 1 / 2 < d then n + 1 else if even n then n else n + 1)"

definition to_double :: "real \<Rightarrow> jsnum" where
  "to_double x =
     (if x = 0 then Fin 0
      else
        let e = max \<lfloor>log 2 \<bar>x\<bar>\<rfloor> (- 1022);
            u = 2 powi (e - 52);
            r = u * of_int (round_even (x / u))
        in if 2 ^ 1024 \<le> \<bar>r\<bar> then (if 0 < x then PInf else NInf) else Fin r)"


definition rounded :: "jsnum \<Rightarrow> jsnum" where
  "rounded v = (case v of Fin r \<Rightarrow> to_double r | PInf \<Rightarrow> PInf | NInf \<Rightarrow> NInf | NaN \<Rightarrow> NaN)"

definition double_add :: "jsnum \<Rightarrow> jsnum \<Rightarrow> jsnum" where
  "double_add a b = rounded (js_add a b)"

definition double_sub :: "jsnum \<Rightarrow> jsnum \<Rightarrow> jsnum" where
  "double_sub a b = rounded (js_sub a b)"

definition double_mul :: "jsnum \<Rightarrow> jsnum \<Rightarrow> jsnum" where
  "double_mul a b = rounded (js_mul a b)"

definition double_div :: "jsnum \<Rightarrow> jsnum \<Rightarrow> jsnum" where
  "double_div a b = rounded (js_div a b)"

text \<open>
  \<open>toEaseOut\<close>, \<open>squeeze\<close> and \<open>quadIn\<close> of \<open>src/animation/easing.jsx\<close>, and \<open>toEaseOut\<close> and
  \<open>squeeze\<close> of the file with function expressions, with the operators of the doubles. The
  expressions are those of the definitions above; the literals 1 and 0 are doubles.
\<close>

definition toEaseOut_double :: "easing \<Rightarrow> easing" where
  "toEaseOut_double f = (\<lambda>t. double_sub (Fin 1) (f (double_sub (Fin 1) t)))"



definition helpers_toEaseOut_double :: "easing \<Rightarrow> easing" where
  "helpers_toEaseOut_double f = (\<lambda>t. double_sub (Fin 1) (f (double_sub (Fin 1) t)))"


section \<open>The derived variants in the words of the specification\<close>

text \<open>
  The specification words the derived variants of an "In" function \<open>xIn\<close> at a real \<open>t\<close> as
  \<open>xOut(t) = 1 - xIn(1 - t)\<close> and
  \<open>xInOut(t) = 0.5 * (xIn(2t) if t < 0.5 else 2 - xIn(2 - 2t))\<close>. These two definitions follow
  that wording; the code's combinators are \<open>toEaseOut\<close> and \<open>toEaseInOut\<close> above.
\<close>

definition spec_Out :: "easing \<Rightarrow> real \<Rightarrow> jsnum" where
  "spec_Out xIn t = js_sub (Fin 1) (xIn (Fin (1 - t)))"

definition spec_InOut :: "easing \<Rightarrow> real \<Rightarrow> jsnum" where
  "spec_InOut xIn t =
     (if t < 0.5 then js_mul (Fin 0.5) (xIn (Fin (2 * t)))
      else js_mul (Fin 0.5) (js_sub (Fin 2) (xIn (Fin (2 - 2 * t)))))"

section \<open>Arithmetic on finite numbers\<close>

lemma js_sub_Fin [simp]: "js_sub (Fin x) (Fin y) = Fin (x - y)"
  by (simp add: js_sub_def)

lemma js_sub_one_one: "js_sub (Fin 1) (js_sub (Fin 1) a) = a"
  by (cases a) (simp_all add: js_sub_def)

lemma Math_pow_cube: "Math_pow (Fin t) (Fin 3) = Fin (t ^ 3)"
proof -
  have i: "is_integral 3" by (simp add: is_integral_def)
  have "t powi 3 = t ^ 3" using power_int_nonneg_exp [of 3 t] by simp
  then show ?thesis using i by simp
qed

lemma sin_13_pi_half: "sin (13 * pi / 2) = (1::real)"
proof -
  have "13 * pi / 2 = pi / 2 + (2 * pi) * of_int 3" by simp
  then have "sin (13 * pi / 2) = sin (pi / 2 + (2 * pi) * of_int 3)" by simp
  also have "\<dots> = 1" unfolding sin_add sin_int_2pin cos_int_2pin by simp
  finally show ?thesis .
qed

section \<open>The two files define the same functions\<close>

lemma helpers_ease_eq: "helpers_ease = ease"
  by (intro ext) (simp add: helpers_ease_def ease_def)

lemma helpers_toEaseOut_eq: "helpers_toEaseOut = toEaseOut"
  by (intro ext) (simp add: helpers_toEaseOut_def toEaseOut_def)

lemma helpers_toEaseInOut_eq: "helpers_toEaseInOut = toEaseInOut"
  by (intro ext) (simp add: helpers_toEaseInOut_def toEaseInOut_def)

lemma helpers_squeeze_eq: "helpers_squeeze = squeeze"
  by (intro ext) (simp add: helpers_squeeze_def squeeze_def Let_def)

lemma make_polyIn_eq: "make_polyIn = makePolyIn"
  by (intro ext) (simp add: make_polyIn_def makePolyIn_def)

lemma make_backIn_eq: "make_backIn = makeBackIn"
  by (intro ext) (simp add: make_backIn_def makeBackIn_def)

lemma make_elasticIn_eq: "make_elasticIn = makeElasticIn"
  by (intro ext) (simp add: make_elasticIn_def makeElasticIn_def)

lemma linear_es5_eq: "linear_es5 = linear_easing"
  by (intro ext) (simp add: linear_es5_def linear_easing_def)

lemma quadIn_es5_eq: "quadIn_es5 = quadIn"
  by (intro ext) (simp add: quadIn_es5_def quadIn_def)

lemma cubicIn_es5_eq: "cubicIn_es5 = cubicIn"
  by (intro ext) (simp add: cubicIn_es5_def cubicIn_def)

lemma sinIn_es5_eq: "sinIn_es5 = sinIn"
  by (intro ext) (simp add: sinIn_es5_def sinIn_def)

lemma expIn_es5_eq: "expIn_es5 = expIn"
  by (intro ext) (simp add: expIn_es5_def expIn_def)

lemma circleIn_es5_eq: "circleIn_es5 = circleIn"
  by (intro ext) (simp add: circleIn_es5_def circleIn_def)

lemma backIn_es5_eq: "backIn_es5 = backIn"
  by (intro ext) (simp add: backIn_es5_def backIn_def make_backIn_eq)

lemma elasticIn_es5_eq: "elasticIn_es5 = elasticIn"
  by (intro ext) (simp add: elasticIn_es5_def elasticIn_def)

lemma bounceOut_es5_eq: "bounceOut_es5 = bounceOut"
  by (intro ext) (simp add: bounceOut_es5_def bounceOut_def)

lemma bounceIn_es5_eq: "bounceIn_es5 = bounceIn"
  by (intro ext) (simp add: bounceIn_es5_def bounceIn_def helpers_toEaseOut_eq bounceOut_es5_eq)

lemma bounceInOut_es5_eq: "bounceInOut_es5 = bounceInOut"
  by (intro ext)
    (simp add: bounceInOut_es5_def bounceInOut_def helpers_toEaseInOut_eq bounceIn_es5_eq)

lemma quadOut_es5_eq: "quadOut_es5 = quadOut"
  by (intro ext) (simp add: quadOut_es5_def quadOut_def helpers_toEaseOut_eq quadIn_es5_eq)

lemma quadInOut_es5_eq: "quadInOut_es5 = quadInOut"
  by (intro ext) (simp add: quadInOut_es5_def quadInOut_def helpers_toEaseInOut_eq quadIn_es5_eq)

lemma cubicOut_es5_eq: "cubicOut_es5 = cubicOut"
  by (intro ext) (simp add: cubicOut_es5_def cubicOut_def helpers_toEaseOut_eq cubicIn_es5_eq)

lemma cubicInOut_es5_eq: "cubicInOut_es5 = cubicInOut"
  by (intro ext) (simp add: cubicInOut_es5_def cubicInOut_def helpers_toEaseInOut_eq cubicIn_es5_eq)

lemma sinOut_es5_eq: "sinOut_es5 = sinOut"
  by (intro ext) (simp add: sinOut_es5_def sinOut_def helpers_toEaseOut_eq sinIn_es5_eq)

lemma sinInOut_es5_eq: "sinInOut_es5 = sinInOut"
  by (intro ext) (simp add: sinInOut_es5_def sinInOut_def helpers_toEaseInOut_eq sinIn_es5_eq)

lemma expOut_es5_eq: "expOut_es5 = expOut"
  by (intro ext) (simp add: expOut_es5_def expOut_def helpers_toEaseOut_eq expIn_es5_eq)

lemma expInOut_es5_eq: "expInOut_es5 = expInOut"
  by (intro ext) (simp add: expInOut_es5_def expInOut_def helpers_toEaseInOut_eq expIn_es5_eq)

lemma circleOut_es5_eq: "circleOut_es5 = circleOut"
  by (intro ext) (simp add: circleOut_es5_def circleOut_def helpers_toEaseOut_eq circleIn_es5_eq)

lemma circleInOut_es5_eq: "circleInOut_es5 = circleInOut"
  by (intro ext) (simp add: circleInOut_es5_def circleInOut_def helpers_toEaseInOut_eq circleIn_es5_eq)

lemma backOut_es5_eq: "backOut_es5 = backOut"
  by (intro ext) (simp add: backOut_es5_def backOut_def helpers_toEaseOut_eq backIn_es5_eq)

lemma backInOut_es5_eq: "backInOut_es5 = backInOut"
  by (intro ext) (simp add: backInOut_es5_def backInOut_def helpers_toEaseInOut_eq backIn_es5_eq)

lemma elasticOut_es5_eq: "elasticOut_es5 = elasticOut"
  by (intro ext) (simp add: elasticOut_es5_def elasticOut_def helpers_toEaseOut_eq elasticIn_es5_eq)

lemma elasticInOut_es5_eq: "elasticInOut_es5 = elasticInOut"
  by (intro ext) (simp add: elasticInOut_es5_def elasticInOut_def helpers_toEaseInOut_eq elasticIn_es5_eq)

section \<open>The base functions on the reals\<close>

lemma linear_easing_Fin: "linear_easing (Fin t) = Fin t"
  by (simp add: linear_easing_def)

lemma quadIn_Fin: "quadIn (Fin t) = Fin (t\<^sup>2)"
  by (simp add: quadIn_def power2_eq_square)

lemma cubicIn_Fin: "cubicIn (Fin t) = Fin (t ^ 3)"
  unfolding cubicIn_def by (rule Math_pow_cube)

lemma sinIn_Fin: "sinIn (Fin t) = Fin (1 - cos (t * pi / 2))"
  by (simp add: sinIn_def Math_PI_def)

lemma expIn_Fin: "expIn (Fin t) = Fin (2 powr (10 * (t - 1)))"
  by (simp add: expIn_def)

lemma circleIn_Fin:
  "circleIn (Fin t) = (if \<bar>t\<bar> \<le> 1 then Fin (1 - sqrt (1 - t\<^sup>2)) else NaN)"
proof -
  have "(1 < t * t) = (1 < \<bar>t\<bar>)"
    using abs_square_le_1 [of t] unfolding power2_eq_square by auto
  then show ?thesis
    by (auto simp add: circleIn_def power2_eq_square js_sub_def)
qed

lemma makeBackIn_Fin: "makeBackIn (Fin a) (Fin t) = Fin (t\<^sup>2 * ((1 + a) * t - a))"
  by (simp add: makeBackIn_def power2_eq_square)

lemma backIn_Fin: "backIn (Fin t) = Fin (t\<^sup>2 * ((1 + 1.70158) * t - 1.70158))"
  unfolding backIn_def by (rule makeBackIn_Fin)

lemma elasticIn_Fin: "elasticIn (Fin t) = Fin (sin (13 * t * pi / 2) * 2 powr (10 * (t - 1)))"
  by (simp add: elasticIn_def Math_PI_def)

lemma bounceOut_Fin:
  "bounceOut (Fin t) =
     Fin (if t < 1 / 2.75 then 7.5625 * t\<^sup>2
          else if t < 2 / 2.75 then 7.5625 * (t - 1.5 / 2.75)\<^sup>2 + 0.75
          else if t < 2.5 / 2.75 then 7.5625 * (t - 2.25 / 2.75)\<^sup>2 + 0.9375
          else 7.5625 * (t - 2.625 / 2.75)\<^sup>2 + 0.984375)"
  by (simp add: bounceOut_def Let_def power2_eq_square)

lemma bounceIn_Fin: "bounceIn (Fin t) = js_sub (Fin 1) (bounceOut (Fin (1 - t)))"
  by (simp add: bounceIn_def toEaseOut_def)

lemma toEaseOut_Fin: "toEaseOut f (Fin t) = spec_Out f t"
  by (simp add: toEaseOut_def spec_Out_def)

lemma toEaseInOut_Fin: "toEaseInOut f (Fin t) = spec_InOut f t"
  by (simp add: toEaseInOut_def spec_InOut_def)

lemma toEaseInOut_half: "f (Fin 1) = Fin 1 \<Longrightarrow> toEaseInOut f (Fin 0.5) = Fin 0.5"
  by (simp add: toEaseInOut_def)

section \<open>Sample evaluations\<close>

text \<open>
  The concrete values the specification lists: \<open>quadIn(0.5) = 0.25\<close>,
  \<open>cubicOut(0.5) = 1 - 0.5\<^sup>3 = 0.875\<close>, \<open>linear(0.3) = 0.3\<close>, and \<open>bounceOut(0.5)\<close>, in the
  second segment, \<open>= 0.765625\<close>.
\<close>

lemma sample_evaluations:
  "quadIn (Fin 0.5) = Fin 0.25" "cubicOut (Fin 0.5) = Fin 0.875"
  "linear_easing (Fin 0.3) = Fin 0.3" "bounceOut (Fin 0.5) = Fin 0.765625"
  by (simp_all add: quadIn_Fin cubicOut_def toEaseOut_def cubicIn_Fin linear_easing_Fin
      bounceOut_Fin power2_eq_square power3_eq_cube)

section \<open>Lemmas for the claims\<close>

lemma In_at_one:
  "quadIn (Fin 1) = Fin 1" "cubicIn (Fin 1) = Fin 1" "sinIn (Fin 1) = Fin 1"
  "expIn (Fin 1) = Fin 1" "circleIn (Fin 1) = Fin 1" "backIn (Fin 1) = Fin 1"
  "elasticIn (Fin 1) = Fin 1"
  by (simp_all add: quadIn_Fin cubicIn_Fin sinIn_Fin expIn_Fin circleIn_Fin backIn_Fin
      elasticIn_Fin sin_13_pi_half)

lemma InOut_at_half:
  "quadInOut (Fin 0.5) = Fin 0.5" "cubicInOut (Fin 0.5) = Fin 0.5"
  "sinInOut (Fin 0.5) = Fin 0.5" "expInOut (Fin 0.5) = Fin 0.5"
  "circleInOut (Fin 0.5) = Fin 0.5" "backInOut (Fin 0.5) = Fin 0.5"
  "elasticInOut (Fin 0.5) = Fin 0.5"
  unfolding quadInOut_def cubicInOut_def sinInOut_def expInOut_def circleInOut_def
    backInOut_def elasticInOut_def
  by (rule toEaseInOut_half, rule In_at_one)+

lemmas es5_eqs =
  helpers_ease_eq helpers_toEaseOut_eq helpers_toEaseInOut_eq helpers_squeeze_eq
  make_polyIn_eq make_backIn_eq make_elasticIn_eq linear_es5_eq
  quadIn_es5_eq quadOut_es5_eq quadInOut_es5_eq
  cubicIn_es5_eq cubicOut_es5_eq cubicInOut_es5_eq
  sinIn_es5_eq sinOut_es5_eq sinInOut_es5_eq
  expIn_es5_eq expOut_es5_eq expInOut_es5_eq
  circleIn_es5_eq circleOut_es5_eq circleInOut_es5_eq
  backIn_es5_eq backOut_es5_eq backInOut_es5_eq
  elasticIn_es5_eq elasticOut_es5_eq elasticInOut_es5_eq
  bounceIn_es5_eq bounceOut_es5_eq bounceInOut_es5_eq

lemma makeElasticIn_Fin:
  "makeElasticIn (Fin s) (Fin k) (Fin t) =
     (if s = 0 then NaN
      else Fin ((exp (s * t) - 1) / (exp s - 1)
                * sin ((2 * pi * of_int \<lfloor>k + 1 / 2\<rfloor> + pi / 2) * t)))"
proof -
  have "sin ((pi * 2 * r + pi / 2) * t) = sin ((2 * pi * r + pi / 2) * t)" for r
    by (simp add: mult.commute)
  then show ?thesis
    by (simp add: makeElasticIn_def Math_PI_def Let_def)
qed

lemma Math_round_2_6: "Math_round (Fin 2.6) = Fin 3"
  by simp

lemma Math_round_3: "Math_round (Fin 3) = Fin 3"
  by simp

lemma makeElasticIn_2_6: "makeElasticIn x (Fin 2.6) = makeElasticIn x (Fin 3)"
  unfolding makeElasticIn_def Math_round_2_6 Math_round_3 ..

lemma makeBounceIn_bounciness_Fin:
  "makeBounceIn_bounciness (Fin b) = Fin (if b \<le> 1 then 1.001 else b)"
  by (simp add: makeBounceIn_bounciness_def)

lemma sumOfUnits_pos:
  fixes c :: real and n :: int
  assumes c: "1 < c" and n: "1 \<le> n"
  shows "0 < (1 - c powr of_int n) / (1 - c) + c powr of_int n * 0.5"
proof -
  have "c powr 1 \<le> c powr of_int n"
    using c n by (intro powr_mono) simp_all
  then have "1 < c powr of_int n" using c by simp
  then have "0 < (1 - c powr of_int n) / (1 - c)"
    using c by (intro divide_neg_neg) simp_all
  moreover have "0 < c powr of_int n * 0.5" using c by simp
  ultimately show ?thesis by linarith
qed

lemma makeBounceIn_sumOfUnits_Fin:
  fixes b :: real and n :: int
  assumes n: "1 \<le> n"
  shows "makeBounceIn_sumOfUnits (Fin (of_int n)) (Fin b) =
     (let c = (if b \<le> 1 then 1.001 else b)
      in Fin ((1 - c powr of_int n) / (1 - c) + c powr of_int n * 0.5))"
proof -
  have "real_of_int n \<noteq> 0" using n by simp
  then show ?thesis
    by (simp add: makeBounceIn_sumOfUnits_def makeBounceIn_bounciness_Fin Let_def)
qed

lemma makeBounceIn_logArgument_Fin:
  fixes b t :: real and n :: int
  assumes n: "1 \<le> n"
  shows "makeBounceIn_logArgument (Fin (of_int n)) (Fin b) (Fin t) =
     (let c = (if b \<le> 1 then 1.001 else b);
          S = (1 - c powr of_int n) / (1 - c) + c powr of_int n * 0.5
      in Fin (- (t * S) * (1 - c) + 1))"
  using makeBounceIn_sumOfUnits_Fin [OF n, of b]
  by (simp add: makeBounceIn_logArgument_def makeBounceIn_bounciness_Fin Let_def)

lemma logArgument_ge_one:
  fixes c t :: real and n :: int
  assumes c: "1 < c" and n: "1 \<le> n" and t: "0 \<le> t"
  shows "1 \<le> - (t * ((1 - c powr of_int n) / (1 - c) + c powr of_int n * 0.5)) * (1 - c) + 1"
proof -
  define S where "S = (1 - c powr of_int n) / (1 - c) + c powr of_int n * 0.5"
  have "0 < S" unfolding S_def using sumOfUnits_pos [OF c n] .
  then have "0 \<le> t * S" using t by simp
  then have "0 \<le> (t * S) * (c - 1)" using c by simp
  moreover have "- (t * S) * (1 - c) = (t * S) * (c - 1)" by (simp add: algebra_simps)
  ultimately have "1 \<le> - (t * S) * (1 - c) + 1" by linarith
  then show ?thesis unfolding S_def .
qed

section \<open>Rounding to a double\<close>

lemma floor_log2_eq:
  fixes x :: real and e :: int
  assumes "2 powi e \<le> x" "x < 2 powi (e + 1)"
  shows "\<lfloor>log 2 x\<rfloor> = e"
proof -
  have pos: "0 < x" using assms(1) by (smt (verit) zero_less_power_int)
  have p: "(2::real) powr of_int k = 2 powi k" for k :: int
    by (simp add: powr_real_of_int')
  have "(2::real) powr (of_int e + 1) = 2 powi (e + 1)"
    using p [of "e + 1"] by simp
  then show ?thesis
    using assms floor_log_eq_powr_iff [of x 2 e] pos p [of e] by simp
qed

lemma to_double_eval:
  fixes x :: real and e :: int
  assumes "2 powi e \<le> \<bar>x\<bar>" "\<bar>x\<bar> < 2 powi (e + 1)" "- 1022 \<le> e"
  shows "to_double x =
     (let u = 2 powi (e - 52); r = u * of_int (round_even (x / u))
      in if 2 ^ 1024 \<le> \<bar>r\<bar> then (if 0 < x then PInf else NInf) else Fin r)"
proof -
  have "\<lfloor>log 2 \<bar>x\<bar>\<rfloor> = e" using assms(1,2) by (rule floor_log2_eq)
  moreover have "x \<noteq> 0" using assms(1) by (smt (verit) zero_less_power_int)
  ultimately show ?thesis using assms(3) by (simp add: to_double_def Let_def max_def)
qed

lemma round_even_of_int [simp]: "round_even (of_int k) = k"
  by (simp add: round_even_def)

lemma binade:
  fixes y :: real
  assumes "0 < y"
  shows "2 powi \<lfloor>log 2 y\<rfloor> \<le> y \<and> y < 2 powi (\<lfloor>log 2 y\<rfloor> + 1)"
proof -
  have p: "(2::real) powr of_int k = 2 powi k" for k :: int
    by (simp add: powr_real_of_int')
  have "(2::real) powr (of_int \<lfloor>log 2 y\<rfloor> + 1) = 2 powi (\<lfloor>log 2 y\<rfloor> + 1)"
    using p [of "\<lfloor>log 2 y\<rfloor> + 1"] by simp
  then show ?thesis
    using floor_log_eq_powr_iff [of y 2 "\<lfloor>log 2 y\<rfloor>"] assms p [of "\<lfloor>log 2 y\<rfloor>"] by simp
qed

lemma to_double_exact:
  fixes m q :: int
  assumes m: "\<bar>m\<bar> < 2 ^ 53" and q: "- 1074 \<le> q"
    and big: "\<bar>of_int m * 2 powi q\<bar> < (2::real) ^ 1024"
  shows "to_double (of_int m * 2 powi q) = Fin (of_int m * 2 powi q)"
proof (cases "m = 0")
  case True
  then show ?thesis by (simp add: to_double_def)
next
  case False
  define x :: real where "x = of_int m * 2 powi q"
  have x0: "x \<noteq> 0" using False by (simp add: x_def)
  define E where "E = \<lfloor>log 2 \<bar>x\<bar>\<rfloor>"
  have E: "2 powi E \<le> \<bar>x\<bar>" using binade [of "\<bar>x\<bar>"] x0 by (simp add: E_def)
  have "real_of_int \<bar>m\<bar> < real_of_int (2 ^ 53)" using m by (simp only: of_int_less_iff)
  then have "\<bar>real_of_int m\<bar> < 2 ^ 53" by simp
  then have "\<bar>x\<bar> < 2 ^ 53 * 2 powi q"
    by (simp add: x_def abs_mult)
  also have "\<dots> = 2 powi (q + 53)" by (simp add: power_int_add)
  finally have "2 powi E < (2::real) powi (q + 53)" using E by linarith
  then have Eq: "E < q + 53"
    using power_int_increasing [of "q + 53" E "2::real"] by linarith
  define e where "e = max E (- 1022)"
  have eq: "e \<le> q + 52" using Eq q by (simp add: e_def)
  define d where "d = nat (q + 52 - e)"
  have "2 powi q / 2 powi (e - 52) = (2::real) powi (q - (e - 52))"
    by (simp add: power_int_diff)
  also have "\<dots> = 2 ^ d" using eq by (simp add: d_def power_int_nonneg_exp algebra_simps)
  finally have pq: "2 powi q / 2 powi (e - 52) = (2::real) ^ d" .
  have "x / 2 powi (e - 52) = of_int m * (2 powi q / 2 powi (e - 52))"
    by (simp add: x_def)
  then have "x / 2 powi (e - 52) = of_int (m * 2 ^ d)"
    unfolding pq by simp
  then have "round_even (x / 2 powi (e - 52)) = m * 2 ^ d"
    by (simp only: round_even_of_int)
  moreover have "2 powi (e - 52) * of_int (m * 2 ^ d) = x"
    using \<open>x / 2 powi (e - 52) = of_int (m * 2 ^ d)\<close> by (simp add: field_simps)
  ultimately have "2 powi (e - 52) * of_int (round_even (x / 2 powi (e - 52))) = x"
    by simp
  then show ?thesis
    using x0 big unfolding to_double_def Let_def x_def [symmetric] E_def [symmetric]
      e_def [symmetric]
    by simp
qed

lemma to_double_tenth: "to_double (1 / 10) = Fin (3602879701896397 / 2 ^ 55)"
  by (subst to_double_eval [where e = "- 4"])
    (simp_all add: Let_def round_even_def power_int_minus)



lemma step_c10_a:
  "double_sub (Fin (1)) (Fin (3602879701896397 / 2 ^ 55)) = Fin (8106479329266893 / 2 ^ 53)"
  by (simp add: double_add_def double_sub_def double_mul_def double_div_def rounded_def,
      subst to_double_eval [where e = "- 1"])
    (simp_all add: Let_def round_even_def power_int_minus)

lemma step_c10_b:
  "double_sub (Fin (1)) (Fin (8106479329266893 / 2 ^ 53)) = Fin (900719925474099 / 2 ^ 53)"
  by (simp add: double_add_def double_sub_def double_mul_def double_div_def rounded_def,
      subst to_double_eval [where e = "- 4"])
    (simp_all add: Let_def round_even_def power_int_minus)

lemma step_c10_c:
  "double_sub (Fin (1)) (Fin (900719925474099 / 2 ^ 53)) = Fin (8106479329266893 / 2 ^ 53)"
  by (simp add: double_add_def double_sub_def double_mul_def double_div_def rounded_def,
      subst to_double_eval [where e = "- 1"])
    (simp_all add: Let_def round_even_def power_int_minus)










lemma toEaseOut_double_twice_tenth:
  "toEaseOut_double (toEaseOut_double linear_easing) (Fin (3602879701896397 / 2 ^ 55)) = Fin (900719925474099 / 2 ^ 53)"
  by (simp only: toEaseOut_double_def linear_easing_def step_c10_a step_c10_b step_c10_c)


lemma rounded_Fin [simp]: "rounded (Fin r) = to_double r"
  by (simp add: rounded_def)


lemma to_double_0 [simp]: "to_double 0 = Fin 0"
  by (simp add: to_double_def)

lemma to_double_1 [simp]: "to_double 1 = Fin 1"
  using to_double_exact [of 1 0] by simp

lemma to_double_frac53:
  fixes j :: int
  assumes "\<bar>j\<bar> \<le> 2 ^ 53"
  shows "to_double (of_int j / 2 ^ 53) = Fin (of_int j / 2 ^ 53)"
proof (cases "\<bar>j\<bar> < 2 ^ 53")
  case True
  have x: "real_of_int j * 2 powi (- 53) = of_int j / 2 ^ 53"
    by (simp add: power_int_minus field_simps)
  have "real_of_int \<bar>j\<bar> < real_of_int (2 ^ 53)" using True by (simp only: of_int_less_iff)
  then have "\<bar>real_of_int j / 2 ^ 53\<bar> < 1" by simp
  also have "(1::real) < 2 ^ 1024" by simp
  finally have "\<bar>real_of_int j * 2 powi (- 53)\<bar> < 2 ^ 1024" unfolding x .
  then show ?thesis using to_double_exact [of j "- 53"] True unfolding x by simp
next
  case False
  then have "j = 2 ^ 53 \<or> j = - (2 ^ 53)" using assms by linarith
  then show ?thesis using to_double_exact [of 1 0] to_double_exact [of "- 1" 0] by auto
qed

lemma one_minus_frac53:
  fixes k :: int
  assumes "0 \<le> k" "k \<le> 2 ^ 53"
  shows "double_sub (Fin 1) (Fin (of_int k / 2 ^ 53)) = Fin (of_int (2 ^ 53 - k) / 2 ^ 53)"
proof -
  have e: "1 - real_of_int k / 2 ^ 53 = of_int (2 ^ 53 - k) / 2 ^ 53"
    by (simp add: field_simps)
  have "\<bar>2 ^ 53 - k\<bar> \<le> 2 ^ 53" using assms by linarith
  then have "to_double (of_int (2 ^ 53 - k) / 2 ^ 53) = Fin (of_int (2 ^ 53 - k) / 2 ^ 53)"
    by (rule to_double_frac53)
  then show ?thesis
    unfolding double_sub_def js_sub_Fin rounded_Fin e .
qed

lemma one_minus_one_minus_frac53:
  fixes k :: int
  assumes "0 \<le> k" "k \<le> 2 ^ 53"
  shows "double_sub (Fin 1) (double_sub (Fin 1) (Fin (of_int k / 2 ^ 53))) = Fin (of_int k / 2 ^ 53)"
proof -
  have "0 \<le> 2 ^ 53 - k" "2 ^ 53 - k \<le> 2 ^ 53" using assms by linarith+
  then show ?thesis
    using one_minus_frac53 [OF assms] one_minus_frac53 [of "2 ^ 53 - k"] by simp
qed

lemma toEaseOut_double_twice:
  assumes "double_sub (Fin 1) (double_sub (Fin 1) t) = t"
    and "double_sub (Fin 1) (double_sub (Fin 1) (f t)) = f t"
  shows "toEaseOut_double (toEaseOut_double f) t = f t"
  using assms by (simp add: toEaseOut_double_def)










lemma helpers_toEaseOut_double_eq: "helpers_toEaseOut_double = toEaseOut_double"
  by (intro ext) (simp add: helpers_toEaseOut_double_def toEaseOut_double_def)



section \<open>\<open>makeBounceIn\<close> at finite arguments\<close>

lemma Math_pow_pos: "0 < x \<Longrightarrow> Math_pow (Fin x) (Fin e) = Fin (x powr e)"
  by simp

lemma makeBounceIn_clamped:
  "makeBounceIn bounces bounciness = makeBounceIn bounces (makeBounceIn_bounciness bounciness)"
proof -
  have i: "makeBounceIn_bounciness (makeBounceIn_bounciness x) = makeBounceIn_bounciness x" for x
    by (cases x) (simp_all add: makeBounceIn_bounciness_def)
  show ?thesis
    by (simp add: makeBounceIn_def makeBounceIn_sumOfUnits_def makeBounceIn_bounceAtT_def
        makeBounceIn_logArgument_def i)
qed

lemma makeBounceIn_value:
  fixes b t :: real and n :: int
  assumes t0: "0 \<le> t" and n: "1 \<le> n"
    and c_def: "c = (if b \<le> 1 then 1.001 else b)"
    and S_def: "S = (1 - c powr of_int n) / (1 - c) + c powr of_int n * 0.5"
    and a_def: "a = - (t * S) * (1 - c) + 1"
    and start_def: "start = of_int \<lfloor>ln a / ln c\<rfloor>"
    and startTime_def: "startTime = (1 - c powr start) / ((1 - c) * S)"
    and endTime_def: "endTime = (1 - c powr (start + 1)) / ((1 - c) * S)"
    and midTime_def: "midTime = (startTime + endTime) * 0.5"
    and radius_def: "radius = midTime - startTime"
    and amplitude_def: "amplitude = (1 / c) powr (of_int n - start)"
  shows "radius \<noteq> 0
      \<and> makeBounceIn (Fin (of_int n)) (Fin b) (Fin t) =
          Fin ((- amplitude / (radius * radius)) * ((t - midTime) - radius)
               * ((t - midTime) + radius))"
proof -
  have c1: "1 < c" unfolding c_def by simp
  have S0: "0 < S" unfolding S_def by (rule sumOfUnits_pos [OF c1 n])
  have den: "(1 - c) * S \<noteq> 0" using c1 S0 by simp
  have bc: "makeBounceIn_bounciness (Fin b) = Fin c"
    unfolding c_def by (rule makeBounceIn_bounciness_Fin)
  have su: "makeBounceIn_sumOfUnits (Fin (of_int n)) (Fin b) = Fin S"
    using makeBounceIn_sumOfUnits_Fin [OF n, of b] by (simp add: Let_def S_def c_def)
  have la: "makeBounceIn_logArgument (Fin (of_int n)) (Fin b) (Fin t) = Fin a"
    using makeBounceIn_logArgument_Fin [OF n, of b t]
    by (simp add: Let_def a_def S_def c_def)
  have a1: "1 \<le> a"
    unfolding a_def S_def by (rule logArgument_ge_one [OF c1 n t0])
  have lc: "0 < ln c" using c1 by simp
  have lg: "Math_log (Fin c) = Fin (ln c)" using c1 by simp
  have lga: "Math_log (Fin a) = Fin (ln a)" using a1 by simp
  have bt: "makeBounceIn_bounceAtT (Fin (of_int n)) (Fin b) (Fin t) = Fin (ln a / ln c)"
    unfolding makeBounceIn_bounceAtT_def la bc lg lga using lc by simp
  have fl: "Math_floor (Fin (ln a / ln c)) = Fin start" by (simp add: start_def)
  have p1: "Math_pow (Fin c) (Fin start) = Fin (c powr start)"
    using c1 by (intro Math_pow_pos) simp
  have p2: "Math_pow (Fin c) (Fin (start + 1)) = Fin (c powr (start + 1))"
    using c1 by (intro Math_pow_pos) simp
  have p3: "Math_pow (Fin (1 / c)) (Fin (of_int n - start)) = Fin amplitude"
    unfolding amplitude_def using c1 by (intro Math_pow_pos) simp
  have A: "js_sub (Fin 1.0) (Fin c) = Fin (1 - c)" by simp
  have B: "js_add (Fin start) (Fin 1.0) = Fin (start + 1)" by simp
  have C: "js_div (js_sub (Fin 1.0) (Fin (c powr start))) (js_mul (Fin (1 - c)) (Fin S))
      = Fin startTime"
    using den by (simp add: startTime_def)
  have D: "js_div (js_sub (Fin 1.0) (Fin (c powr (start + 1)))) (js_mul (Fin (1 - c)) (Fin S))
      = Fin endTime"
    using den by (simp add: endTime_def)
  have E: "js_mul (js_add (Fin startTime) (Fin endTime)) (Fin 0.5) = Fin midTime"
    by (simp add: midTime_def)
  have F: "js_sub (Fin t) (Fin midTime) = Fin (t - midTime)" by simp
  have G: "js_sub (Fin midTime) (Fin startTime) = Fin radius" by (simp add: radius_def)
  have H: "js_div (Fin 1.0) (Fin c) = Fin (1 / c)" using c1 by simp
  have I: "js_sub (Fin (of_int n)) (Fin start) = Fin (of_int n - start)" by simp
  define P where "P = c powr start"
  have P0: "0 < P" using c1 by (simp add: P_def)
  have pw: "c powr (start + 1) = P * c" using c1 by (simp add: powr_add P_def)
  have "endTime - startTime = ((1 - P * c) - (1 - P)) / ((1 - c) * S)"
    unfolding endTime_def startTime_def pw P_def [symmetric] by (simp add: diff_divide_distrib)
  also have "(1 - P * c) - (1 - P) = P * (1 - c)" by (simp add: algebra_simps)
  also have "P * (1 - c) / ((1 - c) * S) = P / S" using c1 by simp
  finally have "radius = P / (2 * S)"
    unfolding radius_def midTime_def by (simp add: field_simps)
  then have r0: "radius \<noteq> 0" using P0 S0 by simp
  have J: "js_mul (js_mul (js_div (js_neg (Fin amplitude)) (js_mul (Fin radius) (Fin radius)))
                          (js_sub (Fin (t - midTime)) (Fin radius)))
                  (js_add (Fin (t - midTime)) (Fin radius))
      = Fin ((- amplitude / (radius * radius)) * ((t - midTime) - radius)
             * ((t - midTime) + radius))"
    using r0 by simp
  have val: "makeBounceIn (Fin (of_int n)) (Fin b) (Fin t) =
      Fin ((- amplitude / (radius * radius)) * ((t - midTime) - radius)
           * ((t - midTime) + radius))"
    unfolding makeBounceIn_def Let_def bc su bt fl A B p1 p2 C D E F G H I p3 J
    by (rule refl)
  show ?thesis using r0 val by (rule conjI)
qed

section \<open>The claims\<close>

text \<open>
  Claim C1, as amended: for every real \<open>t\<close>, \<open>linear(t) = t\<close>, \<open>quadIn(t) = t\<^sup>2\<close>,
  \<open>cubicIn(t) = t\<^sup>3\<close>, \<open>sinIn(t) = 1 - cos(t*pi/2)\<close>, \<open>expIn(t) = 2^(10*(t-1))\<close>,
  \<open>backIn(t) = t\<^sup>2*((1+1.70158)*t - 1.70158)\<close>, which is \<open>makeBackIn(1.70158)(t)\<close>,
  \<open>elasticIn(t) = sin(13*t*pi/2) * 2^(10*(t-1))\<close> and \<open>bounceIn(t) = 1 - bounceOut(1-t)\<close>;
  \<open>circleIn(t) = 1 - sqrt(1 - t\<^sup>2)\<close> for every real \<open>t\<close> with \<open>|t| \<le> 1\<close>, and \<open>circleIn(t)\<close> is
  \<open>NaN\<close> for every other real \<open>t\<close>. In both files.
\<close>

theorem C1_base_formulas:
  "linear_easing (Fin t) = Fin t
   \<and> quadIn (Fin t) = Fin (t\<^sup>2)
   \<and> cubicIn (Fin t) = Fin (t ^ 3)
   \<and> sinIn (Fin t) = Fin (1 - cos (t * pi / 2))
   \<and> expIn (Fin t) = Fin (2 powr (10 * (t - 1)))
   \<and> circleIn (Fin t) = (if \<bar>t\<bar> \<le> 1 then Fin (1 - sqrt (1 - t\<^sup>2)) else NaN)
   \<and> backIn (Fin t) = Fin (t\<^sup>2 * ((1 + 1.70158) * t - 1.70158))
   \<and> backIn (Fin t) = makeBackIn (Fin 1.70158) (Fin t)
   \<and> elasticIn (Fin t) = Fin (sin (13 * t * pi / 2) * 2 powr (10 * (t - 1)))
   \<and> bounceIn (Fin t) = js_sub (Fin 1) (bounceOut (Fin (1 - t)))
   \<and> linear_es5 (Fin t) = Fin t
   \<and> quadIn_es5 (Fin t) = Fin (t\<^sup>2)
   \<and> cubicIn_es5 (Fin t) = Fin (t ^ 3)
   \<and> sinIn_es5 (Fin t) = Fin (1 - cos (t * pi / 2))
   \<and> expIn_es5 (Fin t) = Fin (2 powr (10 * (t - 1)))
   \<and> circleIn_es5 (Fin t) = (if \<bar>t\<bar> \<le> 1 then Fin (1 - sqrt (1 - t\<^sup>2)) else NaN)
   \<and> backIn_es5 (Fin t) = Fin (t\<^sup>2 * ((1 + 1.70158) * t - 1.70158))
   \<and> backIn_es5 (Fin t) = make_backIn (Fin 1.70158) (Fin t)
   \<and> elasticIn_es5 (Fin t) = Fin (sin (13 * t * pi / 2) * 2 powr (10 * (t - 1)))
   \<and> bounceIn_es5 (Fin t) = js_sub (Fin 1) (bounceOut_es5 (Fin (1 - t)))"
  unfolding es5_eqs
  by (simp only: linear_easing_Fin quadIn_Fin cubicIn_Fin sinIn_Fin expIn_Fin circleIn_Fin
      backIn_def makeBackIn_Fin elasticIn_Fin bounceIn_Fin simp_thms)

text \<open>
  Claim C1 as stated fails for \<open>circleIn\<close> outside \<open>[-1, 1]\<close>: at \<open>t = 2\<close> the code takes
  \<open>Math.sqrt(1 - 4)\<close>, which is \<open>NaN\<close>, so \<open>circleIn(2)\<close> is \<open>NaN\<close> and no real number.
\<close>

theorem C1_circleIn_counterexample:
  "circleIn (Fin 2) = NaN \<and> circleIn (Fin 2) \<noteq> Fin (1 - sqrt (1 - 2\<^sup>2))
   \<and> \<not> is_finite (circleIn (Fin 2))"
  by (simp add: circleIn_Fin)

text \<open>
  Claim C2: for every real \<open>t\<close>, \<open>bounceOut(t)\<close> is the four-segment piecewise quadratic of the
  specification, the segments chosen by the strict comparisons \<open>t < 1/2.75\<close>, \<open>t < 2/2.75\<close>,
  \<open>t < 2.5/2.75\<close> in this order; in both files.
\<close>

theorem C2_bounceOut_piecewise:
  "bounceOut (Fin t) =
     Fin (if t < 1 / 2.75 then 7.5625 * t\<^sup>2
          else if t < 2 / 2.75 then 7.5625 * (t - 1.5 / 2.75)\<^sup>2 + 0.75
          else if t < 2.5 / 2.75 then 7.5625 * (t - 2.25 / 2.75)\<^sup>2 + 0.9375
          else 7.5625 * (t - 2.625 / 2.75)\<^sup>2 + 0.984375)
   \<and> bounceOut_es5 (Fin t) =
     Fin (if t < 1 / 2.75 then 7.5625 * t\<^sup>2
          else if t < 2 / 2.75 then 7.5625 * (t - 1.5 / 2.75)\<^sup>2 + 0.75
          else if t < 2.5 / 2.75 then 7.5625 * (t - 2.25 / 2.75)\<^sup>2 + 0.9375
          else 7.5625 * (t - 2.625 / 2.75)\<^sup>2 + 0.984375)"
  unfolding bounceOut_es5_eq using bounceOut_Fin [of t] by simp

text \<open>
  Claim C3: every standard "In" function other than \<open>expIn\<close> (\<open>linear\<close>, \<open>quadIn\<close>, \<open>cubicIn\<close>,
  \<open>sinIn\<close>, \<open>circleIn\<close>, \<open>backIn\<close>, \<open>elasticIn\<close>, \<open>bounceIn\<close>) is exactly 0 at 0 and exactly 1
  at 1.
\<close>

theorem C3_in_endpoints:
  "linear_easing (Fin 0) = Fin 0 \<and> linear_easing (Fin 1) = Fin 1
   \<and> quadIn (Fin 0) = Fin 0 \<and> quadIn (Fin 1) = Fin 1
   \<and> cubicIn (Fin 0) = Fin 0 \<and> cubicIn (Fin 1) = Fin 1
   \<and> sinIn (Fin 0) = Fin 0 \<and> sinIn (Fin 1) = Fin 1
   \<and> circleIn (Fin 0) = Fin 0 \<and> circleIn (Fin 1) = Fin 1
   \<and> backIn (Fin 0) = Fin 0 \<and> backIn (Fin 1) = Fin 1
   \<and> elasticIn (Fin 0) = Fin 0 \<and> elasticIn (Fin 1) = Fin 1
   \<and> bounceIn (Fin 0) = Fin 0 \<and> bounceIn (Fin 1) = Fin 1"
proof -
  have "linear_easing (Fin 0) = Fin 0" "linear_easing (Fin 1) = Fin 1"
    by (simp_all add: linear_easing_Fin)
  moreover have "quadIn (Fin 0) = Fin 0" "quadIn (Fin 1) = Fin 1"
    by (simp_all add: quadIn_Fin)
  moreover have "cubicIn (Fin 0) = Fin 0" "cubicIn (Fin 1) = Fin 1"
    by (simp_all add: cubicIn_Fin)
  moreover have "sinIn (Fin 0) = Fin 0" "sinIn (Fin 1) = Fin 1"
    by (simp_all add: sinIn_Fin)
  moreover have "circleIn (Fin 0) = Fin 0" "circleIn (Fin 1) = Fin 1"
    by (simp_all add: circleIn_Fin)
  moreover have "backIn (Fin 0) = Fin 0" "backIn (Fin 1) = Fin 1"
    by (simp_all add: backIn_Fin)
  moreover have "elasticIn (Fin 0) = Fin 0" "elasticIn (Fin 1) = Fin 1"
    by (simp_all add: elasticIn_Fin sin_13_pi_half)
  moreover have "bounceIn (Fin 0) = Fin 0" "bounceIn (Fin 1) = Fin 1"
    by (simp_all add: bounceIn_Fin bounceOut_Fin power2_eq_square)
  ultimately show ?thesis by simp
qed

text \<open>
  Claim C4: for every base "In" function \<open>xIn\<close> among quad, cubic, sin, exp, circle, back and
  elastic and every real \<open>t\<close>, \<open>xOut(t) = 1 - xIn(1 - t)\<close>, and \<open>xInOut(t)\<close> is \<open>0.5 * xIn(2t)\<close>
  when \<open>t < 0.5\<close> and \<open>0.5 * (2 - xIn(2 - 2t))\<close> otherwise; \<open>xInOut(0.5) = 0.5\<close> for each of
  them, and for the combinator applied to any \<open>f\<close> with \<open>f(1) = 1\<close>. In both files.
\<close>

theorem C4_derived_variants:
  "toEaseOut f (Fin t) = spec_Out f t
   \<and> toEaseInOut f (Fin t) = spec_InOut f t
   \<and> (f (Fin 1) = Fin 1 \<longrightarrow> toEaseInOut f (Fin 0.5) = Fin 0.5)
   \<and> quadOut (Fin t) = spec_Out quadIn t
   \<and> quadInOut (Fin t) = spec_InOut quadIn t
   \<and> quadInOut (Fin 0.5) = Fin 0.5
   \<and> cubicOut (Fin t) = spec_Out cubicIn t
   \<and> cubicInOut (Fin t) = spec_InOut cubicIn t
   \<and> cubicInOut (Fin 0.5) = Fin 0.5
   \<and> sinOut (Fin t) = spec_Out sinIn t
   \<and> sinInOut (Fin t) = spec_InOut sinIn t
   \<and> sinInOut (Fin 0.5) = Fin 0.5
   \<and> expOut (Fin t) = spec_Out expIn t
   \<and> expInOut (Fin t) = spec_InOut expIn t
   \<and> expInOut (Fin 0.5) = Fin 0.5
   \<and> circleOut (Fin t) = spec_Out circleIn t
   \<and> circleInOut (Fin t) = spec_InOut circleIn t
   \<and> circleInOut (Fin 0.5) = Fin 0.5
   \<and> backOut (Fin t) = spec_Out backIn t
   \<and> backInOut (Fin t) = spec_InOut backIn t
   \<and> backInOut (Fin 0.5) = Fin 0.5
   \<and> elasticOut (Fin t) = spec_Out elasticIn t
   \<and> elasticInOut (Fin t) = spec_InOut elasticIn t
   \<and> elasticInOut (Fin 0.5) = Fin 0.5
   \<and> helpers_toEaseOut f (Fin t) = spec_Out f t
   \<and> helpers_toEaseInOut f (Fin t) = spec_InOut f t
   \<and> (f (Fin 1) = Fin 1 \<longrightarrow> helpers_toEaseInOut f (Fin 0.5) = Fin 0.5)
   \<and> quadOut_es5 (Fin t) = spec_Out quadIn_es5 t
   \<and> quadInOut_es5 (Fin t) = spec_InOut quadIn_es5 t
   \<and> quadInOut_es5 (Fin 0.5) = Fin 0.5
   \<and> cubicOut_es5 (Fin t) = spec_Out cubicIn_es5 t
   \<and> cubicInOut_es5 (Fin t) = spec_InOut cubicIn_es5 t
   \<and> cubicInOut_es5 (Fin 0.5) = Fin 0.5
   \<and> sinOut_es5 (Fin t) = spec_Out sinIn_es5 t
   \<and> sinInOut_es5 (Fin t) = spec_InOut sinIn_es5 t
   \<and> sinInOut_es5 (Fin 0.5) = Fin 0.5
   \<and> expOut_es5 (Fin t) = spec_Out expIn_es5 t
   \<and> expInOut_es5 (Fin t) = spec_InOut expIn_es5 t
   \<and> expInOut_es5 (Fin 0.5) = Fin 0.5
   \<and> circleOut_es5 (Fin t) = spec_Out circleIn_es5 t
   \<and> circleInOut_es5 (Fin t) = spec_InOut circleIn_es5 t
   \<and> circleInOut_es5 (Fin 0.5) = Fin 0.5
   \<and> backOut_es5 (Fin t) = spec_Out backIn_es5 t
   \<and> backInOut_es5 (Fin t) = spec_InOut backIn_es5 t
   \<and> backInOut_es5 (Fin 0.5) = Fin 0.5
   \<and> elasticOut_es5 (Fin t) = spec_Out elasticIn_es5 t
   \<and> elasticInOut_es5 (Fin t) = spec_InOut elasticIn_es5 t
   \<and> elasticInOut_es5 (Fin 0.5) = Fin 0.5"
proof -
  have "f (Fin 1) = Fin 1 \<longrightarrow> toEaseInOut f (Fin 0.5) = Fin 0.5"
    using toEaseInOut_half [of f] by blast
  moreover have "quadOut (Fin t) = spec_Out quadIn t" "quadInOut (Fin t) = spec_InOut quadIn t"
    "cubicOut (Fin t) = spec_Out cubicIn t" "cubicInOut (Fin t) = spec_InOut cubicIn t"
    "sinOut (Fin t) = spec_Out sinIn t" "sinInOut (Fin t) = spec_InOut sinIn t"
    "expOut (Fin t) = spec_Out expIn t" "expInOut (Fin t) = spec_InOut expIn t"
    "circleOut (Fin t) = spec_Out circleIn t" "circleInOut (Fin t) = spec_InOut circleIn t"
    "backOut (Fin t) = spec_Out backIn t" "backInOut (Fin t) = spec_InOut backIn t"
    "elasticOut (Fin t) = spec_Out elasticIn t"
    "elasticInOut (Fin t) = spec_InOut elasticIn t"
    unfolding quadOut_def quadInOut_def cubicOut_def cubicInOut_def sinOut_def sinInOut_def
      expOut_def expInOut_def circleOut_def circleInOut_def backOut_def backInOut_def
      elasticOut_def elasticInOut_def
    by (rule toEaseOut_Fin toEaseInOut_Fin)+
  ultimately show ?thesis
    unfolding es5_eqs
    by (simp only: toEaseOut_Fin toEaseInOut_Fin InOut_at_half simp_thms)
qed

text \<open>
  The hypothesis \<open>f(1) = 1\<close> of C4 holds for \<open>f = quadIn\<close>; at \<open>t = 1/4\<close> the derived variants of
  \<open>quadIn\<close> are \<open>1 - (3/4)\<^sup>2\<close> and \<open>0.5 * (1/2)\<^sup>2\<close>.
\<close>

theorem C4_derived_variants_witness:
  "quadIn (Fin 1) = Fin 1 \<and> toEaseInOut quadIn (Fin 0.5) = Fin 0.5
   \<and> quadOut (Fin (1/4)) = Fin (7/16) \<and> quadInOut (Fin (1/4)) = Fin (1/8)"
  using C4_derived_variants [of quadIn "1/4"]
  by (simp add: spec_Out_def spec_InOut_def quadIn_Fin power2_eq_square)

text \<open>
  Claim C5: \<open>makeBounceIn\<close> replaces a bounciness \<open>b \<le> 1\<close> by 1.001 before computing: the
  function it returns is the one for the clamped bounciness \<open>c\<close>. With \<open>c\<close>, for a real \<open>t\<close> in
  \<open>[0, 1]\<close> and an integer number of bounces \<open>n \<ge> 1\<close>, the argument \<open>-t*sumOfUnits*(1 - c) + 1\<close> of
  the logarithm in the segment lookup is positive and the divisor \<open>log(c)\<close> is not zero, so
  \<open>bounceAtT\<close> is the real quotient of two real logarithms; the radius of the segment found is
  not zero either, and \<open>makeBounceIn(n, b)(t)\<close> is the real value of the quadratic of the segment
  \<open>start = floor(bounceAtT)\<close>.
\<close>

theorem C5_makeBounceIn_log_safe:
  fixes b t :: real and n :: int
  assumes t0: "0 \<le> t" and t1: "t \<le> 1" and n: "1 \<le> n"
  shows "let c = (if b \<le> 1 then 1.001 else b);
             S = (1 - c powr of_int n) / (1 - c) + c powr of_int n * 0.5;
             a = - (t * S) * (1 - c) + 1;
             start = of_int \<lfloor>ln a / ln c\<rfloor>;
             startTime = (1 - c powr start) / ((1 - c) * S);
             endTime = (1 - c powr (start + 1)) / ((1 - c) * S);
             midTime = (startTime + endTime) * 0.5;
             radius = midTime - startTime;
             amplitude = (1 / c) powr (of_int n - start)
         in makeBounceIn_bounciness (Fin b) = Fin c \<and> 1 < c
          \<and> makeBounceIn (Fin (of_int n)) (Fin b) = makeBounceIn (Fin (of_int n)) (Fin c)
          \<and> makeBounceIn_logArgument (Fin (of_int n)) (Fin b) (Fin t) = Fin a \<and> 0 < a
          \<and> Math_log (makeBounceIn_bounciness (Fin b)) = Fin (ln c) \<and> ln c \<noteq> 0
          \<and> makeBounceIn_bounceAtT (Fin (of_int n)) (Fin b) (Fin t) = Fin (ln a / ln c)
          \<and> radius \<noteq> 0
          \<and> makeBounceIn (Fin (of_int n)) (Fin b) (Fin t) =
              Fin ((- amplitude / (radius * radius)) * ((t - midTime) - radius)
                   * ((t - midTime) + radius))"
proof -
  define c where "c = (if b \<le> 1 then 1.001 else b)"
  define S where "S = (1 - c powr of_int n) / (1 - c) + c powr of_int n * 0.5"
  define a where "a = - (t * S) * (1 - c) + 1"
  define start :: real where "start = of_int \<lfloor>ln a / ln c\<rfloor>"
  define startTime where "startTime = (1 - c powr start) / ((1 - c) * S)"
  define endTime where "endTime = (1 - c powr (start + 1)) / ((1 - c) * S)"
  define midTime where "midTime = (startTime + endTime) * 0.5"
  define radius where "radius = midTime - startTime"
  define amplitude where "amplitude = (1 / c) powr (of_int n - start)"
  have c1: "1 < c" unfolding c_def by simp
  have bc: "makeBounceIn_bounciness (Fin b) = Fin c"
    unfolding c_def by (rule makeBounceIn_bounciness_Fin)
  have cl: "makeBounceIn (Fin (of_int n)) (Fin b) = makeBounceIn (Fin (of_int n)) (Fin c)"
    using makeBounceIn_clamped [of "Fin (of_int n)" "Fin b"] unfolding bc .
  have la: "makeBounceIn_logArgument (Fin (of_int n)) (Fin b) (Fin t) = Fin a"
    using makeBounceIn_logArgument_Fin [OF n, of b t]
    by (simp add: Let_def a_def S_def c_def)
  have a1: "1 \<le> a"
    unfolding a_def S_def by (rule logArgument_ge_one [OF c1 n t0])
  then have a0: "0 < a" by simp
  have lc: "0 < ln c" using c1 by simp
  then have lc0: "ln c \<noteq> 0" by simp
  have lg: "Math_log (Fin c) = Fin (ln c)" using c1 by simp
  have lga: "Math_log (Fin a) = Fin (ln a)" using a1 by simp
  have bt: "makeBounceIn_bounceAtT (Fin (of_int n)) (Fin b) (Fin t) = Fin (ln a / ln c)"
    unfolding makeBounceIn_bounceAtT_def la bc lg lga using lc by simp
  have lgb: "Math_log (makeBounceIn_bounciness (Fin b)) = Fin (ln c)"
    unfolding bc by (rule lg)
  have v: "radius \<noteq> 0
      \<and> makeBounceIn (Fin (of_int n)) (Fin b) (Fin t) =
          Fin ((- amplitude / (radius * radius)) * ((t - midTime) - radius)
               * ((t - midTime) + radius))"
    by (rule makeBounceIn_value [OF t0 n c_def S_def a_def start_def startTime_def
          endTime_def midTime_def radius_def amplitude_def])
  have "makeBounceIn_bounciness (Fin b) = Fin c \<and> 1 < c
          \<and> makeBounceIn (Fin (of_int n)) (Fin b) = makeBounceIn (Fin (of_int n)) (Fin c)
          \<and> makeBounceIn_logArgument (Fin (of_int n)) (Fin b) (Fin t) = Fin a \<and> 0 < a
          \<and> Math_log (makeBounceIn_bounciness (Fin b)) = Fin (ln c) \<and> ln c \<noteq> 0
          \<and> makeBounceIn_bounceAtT (Fin (of_int n)) (Fin b) (Fin t) = Fin (ln a / ln c)
          \<and> radius \<noteq> 0
          \<and> makeBounceIn (Fin (of_int n)) (Fin b) (Fin t) =
              Fin ((- amplitude / (radius * radius)) * ((t - midTime) - radius)
                   * ((t - midTime) + radius))"
    using bc c1 cl la a0 lgb lc0 bt v by (intro conjI) (erule conjunct1 conjunct2 | assumption)+
  then show ?thesis
    unfolding Let_def amplitude_def radius_def midTime_def endTime_def startTime_def
      start_def a_def S_def c_def .
qed

text \<open>
  With two bounces and bounciness 3 the hypotheses of C5 hold at \<open>t = 1/2\<close>, where \<open>sumOfUnits\<close> is
  \<open>(1 - 9)/(1 - 3) + 9/2 = 17/2\<close> and the argument of the logarithm is \<open>19/2\<close>, and at \<open>t = 0\<close>,
  where the argument is 1, the segment is the one from 0 to \<open>2/17\<close>, and the bounce starts at 0.
  With bounciness \<open>1/2\<close> the function returned is the one for 1.001.
\<close>

theorem C5_makeBounceIn_log_safe_witness:
  "(0::real) \<le> 1/2 \<and> (1/2::real) \<le> 1 \<and> (1::int) \<le> 2 \<and> (0::real) \<le> 0 \<and> (0::real) \<le> 1
   \<and> makeBounceIn_bounciness (Fin 3) = Fin 3
   \<and> makeBounceIn_logArgument (Fin 2) (Fin 3) (Fin (1/2)) = Fin (19/2)
   \<and> makeBounceIn_bounceAtT (Fin 2) (Fin 3) (Fin (1/2)) = Fin (ln (19/2) / ln 3)
   \<and> makeBounceIn_logArgument (Fin 2) (Fin 3) (Fin 0) = Fin 1
   \<and> makeBounceIn (Fin 2) (Fin 3) (Fin 0) = Fin 0
   \<and> makeBounceIn (Fin 2) (Fin (1/2)) = makeBounceIn (Fin 2) (Fin 1.001)"
proof -
  have h: "makeBounceIn_bounciness (Fin 3) = Fin 3
      \<and> makeBounceIn_logArgument (Fin 2) (Fin 3) (Fin (1/2)) = Fin (19/2)
      \<and> makeBounceIn_bounceAtT (Fin 2) (Fin 3) (Fin (1/2)) = Fin (ln (19/2) / ln 3)"
    using C5_makeBounceIn_log_safe [where t = "1/2" and n = 2 and b = 3]
    by (simp add: Let_def)
  have z: "makeBounceIn_logArgument (Fin 2) (Fin 3) (Fin 0) = Fin 1
      \<and> makeBounceIn (Fin 2) (Fin 3) (Fin 0) = Fin 0"
    using C5_makeBounceIn_log_safe [where t = 0 and n = 2 and b = 3]
    by (simp add: Let_def)
  have c: "makeBounceIn (Fin 2) (Fin (1/2)) = makeBounceIn (Fin 2) (Fin 1.001)"
    using C5_makeBounceIn_log_safe [where t = 0 and n = 2 and b = "1/2"]
    by (simp add: Let_def)
  show ?thesis using h z c by simp
qed




text \<open>
  Claim C7: \<open>makeElasticIn(springiness, numberOfSwings)\<close> rounds \<open>numberOfSwings\<close> to the
  nearest integer \<open>n\<close> (2.6 becomes 3, not 2) and returns
  \<open>t \<mapsto> (e^(s*t) - 1)/(e^s - 1) * sin((2*pi*n + pi/2)*t)\<close>, a quotient that is \<open>0/0\<close>, and
  \<open>NaN\<close> in the code, at \<open>s = 0\<close>; for every springiness, \<open>makeElasticIn(s, 2.6)\<close> and
  \<open>makeElasticIn(s, 3)\<close> are the same function. In both files.
\<close>

theorem C7_makeElasticIn_rounds:
  "Math_round (Fin k) = Fin (of_int \<lfloor>k + 1 / 2\<rfloor>)
   \<and> \<bar>of_int \<lfloor>k + 1 / 2\<rfloor> - k\<bar> \<le> 1 / 2
   \<and> Math_round (Fin 2.6) = Fin 3
   \<and> makeElasticIn (Fin s) (Fin k) (Fin t) =
       (if s = 0 then NaN
        else Fin ((exp (s * t) - 1) / (exp s - 1)
                  * sin ((2 * pi * of_int \<lfloor>k + 1 / 2\<rfloor> + pi / 2) * t)))
   \<and> makeElasticIn x (Fin 2.6) = makeElasticIn x (Fin 3)
   \<and> make_elasticIn (Fin s) (Fin k) (Fin t) =
       (if s = 0 then NaN
        else Fin ((exp (s * t) - 1) / (exp s - 1)
                  * sin ((2 * pi * of_int \<lfloor>k + 1 / 2\<rfloor> + pi / 2) * t)))
   \<and> make_elasticIn x (Fin 2.6) = make_elasticIn x (Fin 3)"
proof -
  have "\<bar>of_int \<lfloor>k + 1 / 2\<rfloor> - k\<bar> \<le> 1 / 2"
    by linarith
  then show ?thesis
    unfolding make_elasticIn_eq
    using makeElasticIn_Fin [of s k t] makeElasticIn_2_6 [of x] Math_round_2_6
    by simp
qed

text \<open>
  Claim C8: the two files implement the same functions: each combinator, each named easing
  function and each of the factories \<open>polyIn\<close>, \<open>backIn\<close>, \<open>elasticIn\<close> of the file with function
  expressions equals, as a function of all its arguments, its namesake in
  \<open>src/animation/easing.jsx\<close>.
\<close>

theorem C8_variants_equal:
  "helpers_ease = ease
   \<and> helpers_toEaseOut = toEaseOut
   \<and> helpers_toEaseInOut = toEaseInOut
   \<and> helpers_squeeze = squeeze
   \<and> linear_es5 = linear_easing
   \<and> quadIn_es5 = quadIn
   \<and> quadOut_es5 = quadOut
   \<and> quadInOut_es5 = quadInOut
   \<and> cubicIn_es5 = cubicIn
   \<and> cubicOut_es5 = cubicOut
   \<and> cubicInOut_es5 = cubicInOut
   \<and> sinIn_es5 = sinIn
   \<and> sinOut_es5 = sinOut
   \<and> sinInOut_es5 = sinInOut
   \<and> expIn_es5 = expIn
   \<and> expOut_es5 = expOut
   \<and> expInOut_es5 = expInOut
   \<and> circleIn_es5 = circleIn
   \<and> circleOut_es5 = circleOut
   \<and> circleInOut_es5 = circleInOut
   \<and> backIn_es5 = backIn
   \<and> backOut_es5 = backOut
   \<and> backInOut_es5 = backInOut
   \<and> elasticIn_es5 = elasticIn
   \<and> elasticOut_es5 = elasticOut
   \<and> elasticInOut_es5 = elasticInOut
   \<and> bounceIn_es5 = bounceIn
   \<and> bounceOut_es5 = bounceOut
   \<and> bounceInOut_es5 = bounceInOut
   \<and> make_polyIn = makePolyIn
   \<and> make_backIn = makeBackIn
   \<and> make_elasticIn = makeElasticIn"
  by (simp only: es5_eqs simp_thms)

text \<open>
  Claim C9: the identity is a fixed point of \<open>toEaseInOut\<close>: for every real \<open>t\<close>,
  \<open>toEaseInOut(linear)(t) = t\<close>. The same holds at the three non-finite numbers.
\<close>

theorem C9_toEaseInOut_linear:
  "toEaseInOut linear_easing (Fin t) = Fin t \<and> toEaseInOut linear_easing x = x"
proof -
  have "toEaseInOut linear_easing y = y" for y
    by (cases y) (simp_all add: toEaseInOut_def linear_easing_def js_sub_def)
  then show ?thesis by simp
qed

text \<open>
  Claim C10, as amended: \<open>toEaseOut(toEaseOut(f))(t)\<close> is computed as
  \<open>1 - (1 - f(1 - (1 - t)))\<close>. In exact real arithmetic that is \<open>f(t)\<close> for every easing function
  \<open>f\<close> and every number \<open>t\<close>, so over the reals \<open>toEaseOut\<close> is an involution. In the double
  arithmetic of the code it is \<open>f(t)\<close> whenever \<open>1 - (1 - t)\<close> is computed as \<open>t\<close> and
  \<open>1 - (1 - f(t))\<close> as \<open>f(t)\<close>, which is the case when \<open>t\<close> and \<open>f(t)\<close> are multiples of \<open>2^-53\<close> in
  \<open>[0, 1]\<close>. In both files.
\<close>

theorem C10_toEaseOut_involution:
  "toEaseOut (toEaseOut f) (Fin t) = f (Fin t)
   \<and> toEaseOut (toEaseOut f) = f
   \<and> helpers_toEaseOut (helpers_toEaseOut f) (Fin t) = f (Fin t)
   \<and> helpers_toEaseOut (helpers_toEaseOut f) = f
   \<and> (double_sub (Fin 1) (double_sub (Fin 1) x) = x
        \<and> double_sub (Fin 1) (double_sub (Fin 1) (f x)) = f x \<longrightarrow>
      toEaseOut_double (toEaseOut_double f) x = f x
      \<and> helpers_toEaseOut_double (helpers_toEaseOut_double f) x = f x)
   \<and> (0 \<le> k \<and> k \<le> 2 ^ 53 \<and> 0 \<le> m \<and> m \<le> 2 ^ 53
        \<and> f (Fin (of_int k / 2 ^ 53)) = Fin (of_int m / 2 ^ 53) \<longrightarrow>
      double_sub (Fin 1) (double_sub (Fin 1) (Fin (of_int k / 2 ^ 53))) = Fin (of_int k / 2 ^ 53)
      \<and> toEaseOut_double (toEaseOut_double f) (Fin (of_int k / 2 ^ 53))
          = f (Fin (of_int k / 2 ^ 53))
      \<and> helpers_toEaseOut_double (helpers_toEaseOut_double f) (Fin (of_int k / 2 ^ 53))
          = f (Fin (of_int k / 2 ^ 53)))"
proof -
  have e: "toEaseOut (toEaseOut f) = f"
    by (intro ext) (simp add: toEaseOut_def js_sub_one_one)
  have p1: "toEaseOut (toEaseOut f) (Fin t) = f (Fin t)" by (simp add: e)
  have p2: "double_sub (Fin 1) (double_sub (Fin 1) x) = x
        \<and> double_sub (Fin 1) (double_sub (Fin 1) (f x)) = f x \<longrightarrow>
      toEaseOut_double (toEaseOut_double f) x = f x
      \<and> toEaseOut_double (toEaseOut_double f) x = f x"
    using toEaseOut_double_twice [of x f] by blast
  have p3: "double_sub (Fin 1) (double_sub (Fin 1) (Fin (of_int k / 2 ^ 53)))
          = Fin (of_int k / 2 ^ 53)
      \<and> toEaseOut_double (toEaseOut_double f) (Fin (of_int k / 2 ^ 53))
          = f (Fin (of_int k / 2 ^ 53))"
    if h: "0 \<le> k" "k \<le> 2 ^ 53" "0 \<le> m" "m \<le> 2 ^ 53"
      "f (Fin (of_int k / 2 ^ 53)) = Fin (of_int m / 2 ^ 53)"
  proof -
    have a: "double_sub (Fin 1) (double_sub (Fin 1) (Fin (of_int k / 2 ^ 53)))
        = Fin (of_int k / 2 ^ 53)"
      using h(1,2) by (rule one_minus_one_minus_frac53)
    have b: "double_sub (Fin 1) (double_sub (Fin 1) (f (Fin (of_int k / 2 ^ 53))))
        = f (Fin (of_int k / 2 ^ 53))"
      unfolding h(5) using h(3,4) by (rule one_minus_one_minus_frac53)
    show ?thesis
      using a toEaseOut_double_twice [of "Fin (of_int k / 2 ^ 53)" f, OF a b] by (rule conjI)
  qed
  have p3': "0 \<le> k \<and> k \<le> 2 ^ 53 \<and> 0 \<le> m \<and> m \<le> 2 ^ 53
        \<and> f (Fin (of_int k / 2 ^ 53)) = Fin (of_int m / 2 ^ 53) \<longrightarrow>
      double_sub (Fin 1) (double_sub (Fin 1) (Fin (of_int k / 2 ^ 53))) = Fin (of_int k / 2 ^ 53)
      \<and> toEaseOut_double (toEaseOut_double f) (Fin (of_int k / 2 ^ 53))
          = f (Fin (of_int k / 2 ^ 53))
      \<and> toEaseOut_double (toEaseOut_double f) (Fin (of_int k / 2 ^ 53))
          = f (Fin (of_int k / 2 ^ 53))"
    using p3 by blast
  show ?thesis
    unfolding helpers_toEaseOut_eq helpers_toEaseOut_double_eq
    using p1 e p1 e p2 p3' by (intro conjI)
qed

text \<open>
  Claim C10 as stated fails in double arithmetic at \<open>t = 0.1\<close> with \<open>f = linear\<close>. The double 0.1
  is \<open>3602879701896397/2^55\<close>; \<open>1 - 0.1\<close> is rounded to \<open>8106479329266893/2^53\<close>, and 1 minus that
  is \<open>900719925474099/2^53\<close>, so \<open>toEaseOut(toEaseOut(linear))(0.1)\<close> is 0.09999999999999998 while
  \<open>linear(0.1)\<close> is 0.1.
\<close>

theorem C10_toEaseOut_involution_counterexample:
  "to_double (1 / 10) = Fin (3602879701896397 / 2 ^ 55)
   \<and> linear_easing (Fin (3602879701896397 / 2 ^ 55)) = Fin (3602879701896397 / 2 ^ 55)
   \<and> toEaseOut_double (toEaseOut_double linear_easing) (Fin (3602879701896397 / 2 ^ 55))
       = Fin (900719925474099 / 2 ^ 53)
   \<and> 900719925474099 / 2 ^ 53 \<noteq> (3602879701896397 / 2 ^ 55 :: real)"
proof -
  have l: "linear_easing (Fin (3602879701896397 / 2 ^ 55)) = Fin (3602879701896397 / 2 ^ 55)"
    by (rule linear_easing_Fin)
  have n: "900719925474099 / 2 ^ 53 \<noteq> (3602879701896397 / 2 ^ 55 :: real)" by simp
  show ?thesis
    using to_double_tenth l toEaseOut_double_twice_tenth n by (intro conjI)
qed

text \<open>
  The hypotheses of C10 hold for \<open>f = linear\<close> at \<open>t = 1/2\<close>, which is \<open>2^52/2^53\<close>: \<open>1 - 1/2\<close> is
  computed exactly.
\<close>

theorem C10_toEaseOut_involution_witness:
  "double_sub (Fin 1) (double_sub (Fin 1) (Fin (1/2))) = Fin (1/2)
   \<and> linear_easing (Fin (1/2)) = Fin (1/2)
   \<and> (0::int) \<le> 2 ^ 52 \<and> (2::int) ^ 52 \<le> 2 ^ 53
   \<and> toEaseOut_double (toEaseOut_double linear_easing) (Fin (1/2)) = Fin (1/2)
   \<and> helpers_toEaseOut_double (helpers_toEaseOut_double linear_easing) (Fin (1/2)) = Fin (1/2)"
proof -
  have h: "double_sub (Fin 1) (Fin (1/2)) = Fin (1/2)"
    using one_minus_frac53 [of "2 ^ 52"] by simp
  have l: "linear_easing (Fin (1/2)) = Fin (1/2)" by (rule linear_easing_Fin)
  show ?thesis
    using C10_toEaseOut_involution [where f = linear_easing and x = "Fin (1/2)"
        and k = "2 ^ 52" and m = "2 ^ 52" and t = 0] h l
    by simp
qed

end
